theory Spec2Isabelle
  imports Main "HOL-Library.AList"
begin

section \<open>Values, schemas and the contract\<close>

text \<open>
  JavaScript values as far as the router and the client look at them. An object is an
  association list whose order is the order of \<^verbatim>\<open>Object.keys\<close>; numbers are
  integer valued.
\<close>

datatype jval =
    JUndefined
  | JNull
  | JBool bool
  | JNum int
  | JStr string
  | JArr "jval list"
  | JObj "(string \<times> jval) list"

text \<open>A \<^verbatim>\<open>ZodError\<close> carries the list of its issues.\<close>

datatype zod_error = ZodIssues "string list"

text \<open>
  What a \<^verbatim>\<open>catch\<close> block of the router can receive: a failure thrown by
  \<^verbatim>\<open>parse\<close>, a \<^verbatim>\<open>TypeError\<close> of the language, or an error raised by the
  underlying \<^verbatim>\<open>res.json\<close> of the transport.
\<close>

datatype exn = ZodError zod_error | TypeError | TransportError string

text \<open>
  \<^verbatim>\<open>z.ZodType\<close>: the validation engine is outside the repository, so a schema is
  its \<^verbatim>\<open>parse\<close> function: the parsed value, or the thrown \<^verbatim>\<open>ZodError\<close>.
\<close>

type_synonym schema = "jval \<Rightarrow> zod_error + jval"

text \<open>
  \<^verbatim>\<open>type Api = Record<string, Record<string, { request, parameters: { path, query,
  header }, responses: Record<number | "default", z.ZodType>, errors }>>\<close>
\<close>

datatype response_key = Code nat | Default

record parameters =
  path :: "schema option"
  query :: "schema option"
  header :: "schema option"

record route_description =
  request :: "schema option"
  parameters :: parameters
  responses :: "response_key \<rightharpoonup> schema"
  errors :: "nat \<rightharpoonup> schema"

type_synonym api = "string \<rightharpoonup> (string \<rightharpoonup> route_description)"

definition METHODS :: "string list" where
  "METHODS = [''get'', ''post'', ''put'', ''delete'', ''patch'']"


section \<open>The client\<close>

subsection \<open>\<^verbatim>\<open>String.prototype.replace\<close> with a string pattern\<close>

text \<open>
  \<^verbatim>\<open>str.replace(searchString, replaceValue)\<close> looks for the first position at which
  \<^verbatim>\<open>searchString\<close> occurs; \<open>split_first\<close> returns the text before and after
  that occurrence.
\<close>

fun split_first :: "string \<Rightarrow> string \<Rightarrow> (string \<times> string) option" where
  "split_first pat [] = (if pat = [] then Some ([], []) else None)"
| "split_first pat (c # s) =
     (if take (length pat) (c # s) = pat then Some ([], drop (length pat) (c # s))
      else (case split_first pat s of
              None \<Rightarrow> None
            | Some (pre, post) \<Rightarrow> Some (c # pre, post)))"

text \<open>
  The replacement text is a template: \<^verbatim>\<open>$$\<close> stands for a dollar sign,
  \<^verbatim>\<open>$&\<close> for the matched text, \<^verbatim>\<open>$`\<close> for the text before the match and
  \<^verbatim>\<open>$'\<close> for the text after it. A string pattern has no capture groups, so every
  other \<^verbatim>\<open>$\<close> is literal.
\<close>

fun getSubstitution :: "string \<Rightarrow> string \<Rightarrow> string \<Rightarrow> string \<Rightarrow> string" where
  "getSubstitution matched pre post (c # d # r) =
     (if c = CHR ''$'' \<and> d = CHR ''$'' then CHR ''$'' # getSubstitution matched pre post r
      else if c = CHR ''$'' \<and> d = CHR ''&'' then matched @ getSubstitution matched pre post r
      else if c = CHR ''$'' \<and> d = CHR 0x60 then pre @ getSubstitution matched pre post r
      else if c = CHR ''$'' \<and> d = CHR 0x27 then post @ getSubstitution matched pre post r
      else c # getSubstitution matched pre post (d # r))"
| "getSubstitution matched pre post r = r"

definition js_replace :: "string \<Rightarrow> string \<Rightarrow> string \<Rightarrow> string" where
  "js_replace str searchString replaceValue =
     (case split_first searchString str of
        None \<Rightarrow> str
      | Some (pre, post) \<Rightarrow> pre @ getSubstitution searchString pre post replaceValue @ post)"

subsection \<open>\<^verbatim>\<open>toString\<close> of a path parameter\<close>

text \<open>
  A path parameter is a \<^verbatim>\<open>string | number\<close>. \<^verbatim>\<open>toString\<close> of a string is the
  string. \<^verbatim>\<open>Number.prototype.toString\<close> belongs to the language, not to the
  repository: numbers are the values of a type \<open>'n\<close>, and their conversion is the
  parameter \<open>numberToString\<close> of everything that converts a path parameter.
\<close>

datatype 'n path_value = PStr string | PNum 'n

fun toString :: "('n \<Rightarrow> string) \<Rightarrow> 'n path_value \<Rightarrow> string" where
  "toString numberToString (PStr s) = s"
| "toString numberToString (PNum n) = numberToString n"

subsection \<open>\<^verbatim>\<open>ExZodusClient\<close>\<close>

text \<open>
  \<^verbatim>\<open>Object.keys(path).forEach(key => { modifiedUrl = modifiedUrl.replace(`:${key}`,
  path[key].toString()); })\<close>, the path object given as its entries in the order of
  \<^verbatim>\<open>Object.keys\<close>.
\<close>

fun replacePathParams ::
  "('n \<Rightarrow> string) \<Rightarrow> string \<Rightarrow> (string \<times> 'n path_value) list \<Rightarrow> string" where
  "replacePathParams numberToString modifiedUrl [] = modifiedUrl"
| "replacePathParams numberToString modifiedUrl ((key, v) # rest) =
     replacePathParams numberToString
       (js_replace modifiedUrl (CHR '':'' # key) (toString numberToString v)) rest"

text \<open>
  The \<^verbatim>\<open>config\<close> argument of a client call. \<open>cpath = None\<close> is an object without
  the key \<^verbatim>\<open>path\<close>; the other entries are read with \<^verbatim>\<open>config[...]\<close>, which is
  \<^verbatim>\<open>undefined\<close> for an absent key.
\<close>

record 'n client_config =
  cpath :: "(string \<times> 'n path_value) list option"
  cheader :: jval
  cquery :: jval
  cbody :: jval
  cresponseType :: jval

text \<open>
  \<^verbatim>\<open>AxiosRequestConfig\<close>, as far as the client writes and reads it; \<open>method_name\<close>
  is its key \<^verbatim>\<open>method\<close>. A field that is \<open>None\<close> is a key the object does not have.
\<close>

record axios_request_config =
  method_name :: "string option"
  url :: "string option"
  headers :: "jval option"
  params :: "jval option"
  data :: "jval option"
  responseType :: "jval option"

definition buildAxiosConfig ::
  "('n \<Rightarrow> string) \<Rightarrow> string \<Rightarrow> string \<Rightarrow> 'n client_config option \<Rightarrow> axios_request_config" where
  "buildAxiosConfig numberToString m p config =
     (case config of
        None \<Rightarrow>
          \<lparr>method_name = Some m, url = Some p, headers = None, params = None, data = None,
           responseType = None\<rparr>
      | Some c \<Rightarrow>
          \<lparr>method_name = Some m,
           url = Some (case cpath c of
                       Some pp \<Rightarrow> replacePathParams numberToString p pp
                     | None \<Rightarrow> p),
           headers = Some (cheader c),
           params = Some (cquery c),
           data = Some (cbody c),
           responseType = Some (cresponseType c)\<rparr>)"

text \<open>
  A caught value: an \<^verbatim>\<open>AxiosError\<close> (with its optional \<^verbatim>\<open>config\<close> and
  \<^verbatim>\<open>response\<close>) or anything else.
\<close>

record axios_response =
  status :: nat
  rdata :: jval

record axios_error =
  config :: "axios_request_config option"
  response :: "axios_response option"

datatype caught = AxiosError axios_error | NotAxiosError jval

definition isErrorOf :: "caught \<Rightarrow> string \<Rightarrow> string \<Rightarrow> nat \<Rightarrow> bool" where
  "isErrorOf err m p code =
     (case err of
        NotAxiosError _ \<Rightarrow> False
      | AxiosError axiosErr \<Rightarrow>
          if (case config axiosErr of None \<Rightarrow> None | Some c \<Rightarrow> method_name c) \<noteq> Some m then False
          else if (case config axiosErr of None \<Rightarrow> None | Some c \<Rightarrow> url c) \<noteq> Some p then False
          else if map_option status (response axiosErr) \<noteq> Some code then False
          else True)"

text \<open>
  What the transport rejects a call with when the server answers with an error status:
  an \<^verbatim>\<open>AxiosError\<close> that holds the configuration the request was made with and the
  response. In \<^verbatim>\<open>get\<close>, \<^verbatim>\<open>post\<close>, \<^verbatim>\<open>put\<close>, \<^verbatim>\<open>patch\<close> and
  \<^verbatim>\<open>delete\<close> that configuration is the result of \<open>buildAxiosConfig\<close>.
\<close>

definition request_error :: "axios_request_config \<Rightarrow> axios_response \<Rightarrow> caught" where
  "request_error axiosConfig res = AxiosError \<lparr>config = Some axiosConfig, response = Some res\<rparr>"



section \<open>The router\<close>

subsection \<open>Request and response objects\<close>

record request =
  params :: jval
  query :: jval
  body :: jval
  headers :: "string \<rightharpoonup> string"

text \<open>
  The function stored in \<^verbatim>\<open>res.json\<close>: the one the transport provides, or the
  closure that \<^verbatim>\<open>responseValidator\<close> puts there, which keeps the route description
  and the function it replaced (\<^verbatim>\<open>originalJson\<close>).
\<close>

datatype json_method = OriginalJson | JsonOverride route_description json_method

text \<open>
  The response object: its status code, its \<^verbatim>\<open>json\<close> method, and what the
  transport has put on the wire so far (status and body of each send, in order).
\<close>

record response =
  statusCode :: nat
  json :: json_method
  wire :: "(nat \<times> jval) list"

text \<open>
  The transport's own \<^verbatim>\<open>res.json\<close> is outside the repository: a function of the
  body and the response object that returns the response object after the call, together
  with the exception it raised, if any.
\<close>

type_synonym transport = "jval \<Rightarrow> response \<Rightarrow> exn option \<times> response"

text \<open>
  What a middleware does at its end: \<^verbatim>\<open>next()\<close>, or
  \<^verbatim>\<open>config.errorHandler(err, req, res)\<close>. Each carries the request and response
  objects in the state the middleware left them. The framework runs the following
  handlers only on \<^verbatim>\<open>next()\<close>, and it catches what a handler throws in the layer
  that called the handler, so \<^verbatim>\<open>next()\<close> itself raises nothing in the validator.
\<close>

datatype outcome = CallNext request response | CallErrorHandler exn request response

fun outcome_request :: "outcome \<Rightarrow> request" where
  "outcome_request (CallNext req res) = req"
| "outcome_request (CallErrorHandler err req res) = req"

subsection \<open>\<^verbatim>\<open>requestValidator\<close>\<close>

text \<open>
  First block: \<^verbatim>\<open>routeDescription.parameters.path.parse(req.params)\<close> or, without a
  path schema, \<^verbatim>\<open>z.object({}).parse(req.params)\<close>. The schema \<^verbatim>\<open>z.object({})\<close> of
  the validation engine is the parameter \<open>zobj\<close>.
\<close>

definition validatePathParams :: "schema \<Rightarrow> route_description \<Rightarrow> jval \<Rightarrow> zod_error + jval" where
  "validatePathParams zobj routeDescription ps =
     (case parameters.path (parameters routeDescription) of
        Some s \<Rightarrow> s ps
      | None \<Rightarrow> zobj ps)"

text \<open>
  \<^verbatim>\<open>for (const key of Object.keys(req.query)) { if (req.query[key] === "true") {
  req.query[key] = true } else if (req.query[key] === "false") { req.query[key] = false } }\<close>
\<close>

fun coerce_keys :: "string list \<Rightarrow> (string \<times> jval) list \<Rightarrow> (string \<times> jval) list" where
  "coerce_keys [] q = q"
| "coerce_keys (key # keys) q =
     coerce_keys keys
       (if map_of q key = Some (JStr ''true'') then AList.update key (JBool True) q
        else if map_of q key = Some (JStr ''false'') then AList.update key (JBool False) q
        else q)"

definition coerceValue :: "jval \<Rightarrow> jval" where
  "coerceValue v =
     (if v = JStr ''true'' then JBool True else if v = JStr ''false'' then JBool False else v)"

text \<open>
  The loop on any value of \<^verbatim>\<open>req.query\<close>. \<^verbatim>\<open>Object.keys\<close> raises a
  \<^verbatim>\<open>TypeError\<close> on \<^verbatim>\<open>undefined\<close> and \<^verbatim>\<open>null\<close>; the keys of an array are
  its indices; a boolean or a number has no keys, and the keys of a string select single
  characters, which are neither \<^verbatim>\<open>"true"\<close> nor \<^verbatim>\<open>"false"\<close>.
\<close>

fun coerceQuery :: "jval \<Rightarrow> exn + jval" where
  "coerceQuery (JObj q) = Inr (JObj (coerce_keys (map fst q) q))"
| "coerceQuery (JArr xs) = Inr (JArr (map coerceValue xs))"
| "coerceQuery JUndefined = Inl TypeError"
| "coerceQuery JNull = Inl TypeError"
| "coerceQuery v = Inr v"

text \<open>
  Second block. On a failure the result holds, besides the exception, the value that
  \<^verbatim>\<open>req.query\<close> has at that moment: the loop has already changed it in place when
  the query schema rejects it.
\<close>

definition validateQuery :: "schema \<Rightarrow> route_description \<Rightarrow> jval \<Rightarrow> exn \<times> jval + jval" where
  "validateQuery zobj routeDescription q =
     (case parameters.query (parameters routeDescription) of
        Some s \<Rightarrow>
          (case coerceQuery q of
             Inl err \<Rightarrow> Inl (err, q)
           | Inr qc \<Rightarrow> (case s qc of Inl e \<Rightarrow> Inl (ZodError e, qc) | Inr q' \<Rightarrow> Inr q'))
      | None \<Rightarrow> (case zobj q of Inl e \<Rightarrow> Inl (ZodError e, q) | Inr q' \<Rightarrow> Inr q'))"

text \<open>
  Third block: \<^verbatim>\<open>if (req.headers["content-type"] === "application/json" &&
  routeDescription?.request) { req.body = routeDescription.request.parse(req.body) }\<close>,
  and nothing otherwise.
\<close>

definition validateBody :: "route_description \<Rightarrow> (string \<rightharpoonup> string) \<Rightarrow> jval \<Rightarrow> zod_error + jval" where
  "validateBody routeDescription hs b =
     (if hs ''content-type'' = Some ''application/json'' then
        (case request routeDescription of Some s \<Rightarrow> s b | None \<Rightarrow> Inr b)
      else Inr b)"

text \<open>
  The three blocks run in this order inside one \<^verbatim>\<open>try\<close>; the first exception
  leaves it for \<^verbatim>\<open>config.errorHandler(err, req, res)\<close>, with the assignments made so
  far still in \<^verbatim>\<open>req\<close>.
\<close>

definition requestValidator :: "schema \<Rightarrow> route_description \<Rightarrow> request \<Rightarrow> response \<Rightarrow> outcome" where
  "requestValidator zobj routeDescription req res =
     (case validatePathParams zobj routeDescription (params req) of
        Inl e \<Rightarrow> CallErrorHandler (ZodError e) req res
      | Inr p \<Rightarrow>
          (case validateQuery zobj routeDescription (query req) of
             Inl (err, q) \<Rightarrow> CallErrorHandler err (req\<lparr>params := p, query := q\<rparr>) res
           | Inr q' \<Rightarrow>
               (case validateBody routeDescription (request.headers req) (body req) of
                  Inl e \<Rightarrow> CallErrorHandler (ZodError e) (req\<lparr>params := p, query := q'\<rparr>) res
                | Inr b \<Rightarrow> CallNext (req\<lparr>params := p, query := q', body := b\<rparr>) res)))"

subsection \<open>\<^verbatim>\<open>responseValidator\<close>\<close>

definition fallbackBody :: jval where
  "fallbackBody =
     JObj [(''status'', JStr ''Internal server error''),
           (''message'', JStr ''Server generated response is out of API spec'')]"

text \<open>
  \<^verbatim>\<open>routeDescription.responses?.[res.statusCode]?.parse(body) ?? body\<close>: without an
  entry for the status code the optional chain is \<^verbatim>\<open>undefined\<close>, and \<^verbatim>\<open>??\<close>
  takes \<^verbatim>\<open>body\<close>; it also does when \<^verbatim>\<open>parse\<close> returns \<^verbatim>\<open>null\<close> or
  \<^verbatim>\<open>undefined\<close>.
\<close>

definition parsedBody :: "route_description \<Rightarrow> nat \<Rightarrow> jval \<Rightarrow> zod_error + jval" where
  "parsedBody routeDescription code b =
     (case responses routeDescription (Code code) of
        None \<Rightarrow> Inr b
      | Some s \<Rightarrow>
          (case s b of
             Inl e \<Rightarrow> Inl e
           | Inr v \<Rightarrow> Inr (if v = JUndefined \<or> v = JNull then b else v)))"



text \<open>
  Calling the function stored in \<^verbatim>\<open>res.json\<close>. The override parses and calls
  \<^verbatim>\<open>originalJson\<close> inside a \<^verbatim>\<open>try\<close>; its \<^verbatim>\<open>catch\<close> sets the status to 500
  and calls \<^verbatim>\<open>originalJson\<close> with the fixed body.
\<close>

fun call_json :: "transport \<Rightarrow> json_method \<Rightarrow> jval \<Rightarrow> response \<Rightarrow> exn option \<times> response" where
  "call_json tr OriginalJson b res = tr b res"
| "call_json tr (JsonOverride routeDescription originalJson) b res =
     (case parsedBody routeDescription (statusCode res) b of
        Inl e \<Rightarrow> call_json tr originalJson fallbackBody (res\<lparr>statusCode := 500\<rparr>)
      | Inr pb \<Rightarrow>
          (case call_json tr originalJson pb res of
             (None, res') \<Rightarrow> (None, res')
           | (Some err, res') \<Rightarrow> call_json tr originalJson fallbackBody (res'\<lparr>statusCode := 500\<rparr>)))"

definition res_json :: "transport \<Rightarrow> jval \<Rightarrow> response \<Rightarrow> exn option \<times> response" where
  "res_json tr b res = call_json tr (json res) b res"

definition responseValidator :: "route_description \<Rightarrow> request \<Rightarrow> response \<Rightarrow> outcome" where
  "responseValidator routeDescription req res =
     CallNext req (res\<lparr>json := JsonOverride routeDescription (json res)\<rparr>)"

text \<open>
  A transport for examples: it puts the body on the wire with the current status code and
  raises nothing, whatever was sent before.
\<close>

definition wire_json :: transport where
  "wire_json b res = (None, res\<lparr>wire := wire res @ [(statusCode res, b)]\<rparr>)"

subsection \<open>\<^verbatim>\<open>ExZodusRouter.new\<close>\<close>

text \<open>
  The functions a route is registered with: the two closures that
  \<^verbatim>\<open>ExZodusRouter.new\<close> builds over a route description, and the caller's handlers.
  A registrar of the framework takes a path and any number of arguments, each a function
  or an array of such arguments, and reads them flattened.
\<close>

datatype 'h middleware =
    RequestValidator route_description
  | ResponseValidator route_description
  | Handler 'h

datatype 'f harg = Fn 'f | Arr "'f harg list"

fun flatten :: "'f harg \<Rightarrow> 'f list" where
  "flatten (Fn f) = [f]"
| "flatten (Arr xs) = concat (map flatten xs)"

definition flatten_args :: "'f harg list \<Rightarrow> 'f list" where
  "flatten_args args = concat (map flatten args)"

type_synonym ('h, 'r) registrar = "string \<Rightarrow> 'h middleware harg list \<Rightarrow> 'r"

text \<open>
  The configuration. \<^verbatim>\<open>config.errorHandler\<close> is the caller's function; a call of it
  is the outcome \<open>CallErrorHandler\<close>.
\<close>

record router_config =
  attachResponseValidator :: bool

text \<open>The function that replaces \<^verbatim>\<open>router[method]\<close>.\<close>

definition router_method ::
  "api \<Rightarrow> router_config \<Rightarrow> ('h, 'r) registrar \<Rightarrow> string \<Rightarrow> ('h, 'r) registrar" where
  "router_method apiDef cfg originalHandlerRegistrar m p handlers =
     (case (case apiDef p of None \<Rightarrow> None | Some ms \<Rightarrow> ms m) of
        None \<Rightarrow> originalHandlerRegistrar p [Arr handlers]
      | Some routeDescription \<Rightarrow>
          if attachResponseValidator cfg then
            originalHandlerRegistrar p
              [Fn (RequestValidator routeDescription), Fn (ResponseValidator routeDescription),
               Arr handlers]
          else
            originalHandlerRegistrar p [Fn (RequestValidator routeDescription), Arr handlers])"

text \<open>
  \<^verbatim>\<open>for (const method of METHODS) { ... router[method] = ... }\<close> on the router
  \<^verbatim>\<open>express.Router()\<close>, a table of registrars by method name.
\<close>

definition ExZodusRouter_new ::
  "api \<Rightarrow> router_config \<Rightarrow> (string \<Rightarrow> ('h, 'r) registrar) \<Rightarrow> (string \<Rightarrow> ('h, 'r) registrar)" where
  "ExZodusRouter_new apiDef cfg router =
     fold (\<lambda>m r. r(m := router_method apiDef cfg (r m) m)) METHODS router"



section \<open>An example contract\<close>

text \<open>
  Schemas, a route and a request for the concrete instances below:
  \<^verbatim>\<open>z.number()\<close>, \<^verbatim>\<open>z.never()\<close>, \<^verbatim>\<open>z.object({ id: z.string() })\<close>,
  \<^verbatim>\<open>z.object({ admin: z.boolean() })\<close> and \<^verbatim>\<open>z.object({})\<close>; an object schema
  drops the keys it does not declare.
\<close>

definition z_number :: schema where
  "z_number v = (case v of JNum n \<Rightarrow> Inr (JNum n) | _ \<Rightarrow> Inl (ZodIssues [''Expected number'']))"

definition z_never :: schema where
  "z_never v = Inl (ZodIssues [''Expected never''])"

definition z_object_id :: schema where
  "z_object_id v =
     (case v of
        JObj q \<Rightarrow>
          (case map_of q ''id'' of
             Some (JStr s) \<Rightarrow> Inr (JObj [(''id'', JStr s)])
           | _ \<Rightarrow> Inl (ZodIssues [''id: Expected string'']))
      | _ \<Rightarrow> Inl (ZodIssues [''Expected object'']))"

definition z_object_admin :: schema where
  "z_object_admin v =
     (case v of
        JObj q \<Rightarrow>
          (case map_of q ''admin'' of
             Some (JBool a) \<Rightarrow> Inr (JObj [(''admin'', JBool a)])
           | _ \<Rightarrow> Inl (ZodIssues [''admin: Expected boolean'']))
      | _ \<Rightarrow> Inl (ZodIssues [''Expected object'']))"

definition z_object_empty :: schema where
  "z_object_empty v =
     (case v of JObj q \<Rightarrow> Inr (JObj []) | _ \<Rightarrow> Inl (ZodIssues [''Expected object'']))"

definition example_route :: route_description where
  "example_route =
     \<lparr>request = Some z_number,
      parameters = \<lparr>path = Some z_object_id, parameters.query = Some z_object_admin, header = None\<rparr>,
      responses = [Code 200 \<mapsto> z_number],
      errors = Map.empty\<rparr>"

definition default_only_route :: route_description where
  "default_only_route =
     \<lparr>request = None,
      parameters = \<lparr>path = None, parameters.query = None, header = None\<rparr>,
      responses = [Default \<mapsto> z_never],
      errors = Map.empty\<rparr>"

definition example_request :: request where
  "example_request =
     \<lparr>params = JObj [(''id'', JStr ''7''), (''extra'', JStr ''x'')],
      query = JObj [(''admin'', JStr ''true'')],
      body = JNum 1,
      headers = [''content-type'' \<mapsto> ''application/json'']\<rparr>"

definition example_response :: response where
  "example_response = \<lparr>statusCode = 200, json = OriginalJson, wire = []\<rparr>"

text \<open>
  The instances with a number use the number 7 and write it in decimal digits.
\<close>

fun nat_digits :: "nat \<Rightarrow> string" where
  "nat_digits n =
     (if n < 10 then [''0123456789'' ! n]
      else nat_digits (n div 10) @ [''0123456789'' ! (n mod 10)])"

declare nat_digits.simps [simp del]

definition decimal :: "int \<Rightarrow> string" where
  "decimal i = (if i < 0 then CHR ''-'' # nat_digits (nat (- i)) else nat_digits (nat i))"

definition example_config :: "int client_config" where
  "example_config =
     \<lparr>cpath = Some [(''id'', PNum 7), (''pid'', PStr ''a'')], cheader = JUndefined,
      cquery = JUndefined, cbody = JUndefined, cresponseType = JUndefined\<rparr>"

definition example_api :: api where
  "example_api = [''/users/:id'' \<mapsto> [''get'' \<mapsto> example_route]]"


section \<open>Facts about the client\<close>

subsection \<open>Replacing the first occurrence\<close>










lemma decimal_7: "decimal 7 = ''7''"
  by (simp add: decimal_def nat_digits.simps)

subsection \<open>The URL of a built request\<close>




subsection \<open>Classifying a caught error\<close>

lemma isErrorOf_iff:
  "isErrorOf err m p code \<longleftrightarrow>
     (\<exists>e c r. err = AxiosError e \<and> config e = Some c \<and> method_name c = Some m \<and> url c = Some p
        \<and> response e = Some r \<and> status r = code)"
  by (cases err) (auto simp: isErrorOf_def split: option.splits)

text \<open>
  The function compares its \<^verbatim>\<open>path\<close> argument with \<^verbatim>\<open>config.url\<close>. For the error
  of a call whose URL the path parameters have changed, the path of the call is therefore
  never accepted, whatever the method and the status code.
\<close>

lemma isErrorOf_rejects_replaced_path:
  "url (buildAxiosConfig ts m t cfg) \<noteq> Some t \<Longrightarrow>
   \<not> isErrorOf (request_error (buildAxiosConfig ts m t cfg) res) m' t code"
  by (simp add: isErrorOf_iff request_error_def)

text \<open>
  C5 does not hold of the code. The claim: \<^verbatim>\<open>isErrorOf(err, method, path, status)\<close>
  is true exactly when the request that \<^verbatim>\<open>err\<close> comes from used that method and that
  path and the response had that status code; the path is a path of the contract
  (\<^verbatim>\<open>path: P\<close> with \<^verbatim>\<open>P extends Path<A>\<close>). The call
  \<^verbatim>\<open>get("/users/:id", { path: { id: 7 } })\<close> answered with status 404 used the method
  \<^verbatim>\<open>get\<close> and the path \<^verbatim>\<open>/users/:id\<close>, yet \<open>isErrorOf\<close> is false for
  \<^verbatim>\<open>("get", "/users/:id", 404)\<close>: it compares the path with \<^verbatim>\<open>config.url\<close>, which
  \<open>buildAxiosConfig\<close> has set to \<^verbatim>\<open>/users/7\<close>. Where no path parameter is replaced the
  answer is the claimed one, and so it is for a value that is no \<^verbatim>\<open>AxiosError\<close> and
  for an error without a response.
\<close>

theorem isErrorOf_path_of_call_rejected:
  "url (buildAxiosConfig decimal ''get'' ''/users/:id''
          (Some (example_config\<lparr>cpath := Some [(''id'', PNum 7)]\<rparr>))) = Some ''/users/7''
   \<and> \<not> isErrorOf
         (request_error
            (buildAxiosConfig decimal ''get'' ''/users/:id''
               (Some (example_config\<lparr>cpath := Some [(''id'', PNum 7)]\<rparr>)))
            \<lparr>status = 404, rdata = JNull\<rparr>)
         ''get'' ''/users/:id'' 404
   \<and> isErrorOf
         (request_error
            (buildAxiosConfig decimal ''get'' ''/users/:id''
               (Some (example_config\<lparr>cpath := Some [(''id'', PNum 7)]\<rparr>)))
            \<lparr>status = 404, rdata = JNull\<rparr>)
         ''get'' ''/users/7'' 404
   \<and> isErrorOf
         (request_error (buildAxiosConfig decimal ''get'' ''/users'' None)
            \<lparr>status = 404, rdata = JNull\<rparr>)
         ''get'' ''/users'' 404
   \<and> \<not> isErrorOf (NotAxiosError (JStr ''boom'')) ''get'' ''/users/:id'' 404
   \<and> \<not> isErrorOf
         (AxiosError \<lparr>config = Some (buildAxiosConfig decimal ''get'' ''/users'' None),
                      response = None\<rparr>)
         ''get'' ''/users'' 404"
  by (simp add: isErrorOf_iff request_error_def buildAxiosConfig_def js_replace_def decimal_7)

section \<open>Facts about the router\<close>

subsection \<open>The overridden \<^verbatim>\<open>res.json\<close>\<close>

lemma res_json_override:
  "json r = JsonOverride rd orig \<Longrightarrow>
   res_json tr b r =
     (case parsedBody rd (statusCode r) b of
        Inl e \<Rightarrow> call_json tr orig fallbackBody (r\<lparr>statusCode := 500\<rparr>)
      | Inr pb \<Rightarrow>
          (case call_json tr orig pb r of
             (None, r') \<Rightarrow> (None, r')
           | (Some err, r') \<Rightarrow> call_json tr orig fallbackBody (r'\<lparr>statusCode := 500\<rparr>)))"
  by (simp add: res_json_def)


lemma call_json_keeps_json:
  "\<forall>x y. json (snd (tr x y)) = json y \<Longrightarrow> json (snd (call_json tr jm b r)) = json r"
proof (induction jm arbitrary: b r)
  case OriginalJson
  then show ?case by simp
next
  case (JsonOverride rd orig)
  have k: "\<And>b r. json (snd (call_json tr orig b r)) = json r"
    using JsonOverride by blast
  show ?case
  proof (cases "parsedBody rd (statusCode r) b")
    case (Inl e)
    then show ?thesis using k [of fallbackBody "r\<lparr>statusCode := 500\<rparr>"] by simp
  next
    case (Inr pb)
    obtain x r' where c: "call_json tr orig pb r = (x, r')" by (cases "call_json tr orig pb r")
    with k [of pb r] have r': "json r' = json r" by simp
    show ?thesis
    proof (cases x)
      case None
      with Inr c r' show ?thesis by simp
    next
      case (Some err)
      with Inr c r' k [of fallbackBody "r'\<lparr>statusCode := 500\<rparr>"] show ?thesis by simp
    qed
  qed
qed

lemma sends_keep_json:
  assumes "\<forall>x y. json (snd (tr x y)) = json y"
  shows "json (fold (\<lambda>b x. snd (res_json tr b x)) bs r) = json r"
proof (induction bs arbitrary: r)
  case Nil
  then show ?case by simp
next
  case (Cons b bs)
  have "json (snd (res_json tr b r)) = json r"
    using call_json_keeps_json [OF assms] by (simp add: res_json_def)
  with Cons show ?case by simp
qed

text \<open>
  C1, as stated, fails: the override looks up \<^verbatim>\<open>responses[res.statusCode]\<close> and
  nothing else. On a route whose only entry is \<^verbatim>\<open>default: z.never()\<close>, a handler
  that sends \<^verbatim>\<open>"leak"\<close> with status 200 gets it on the wire unchanged, although the
  \<^verbatim>\<open>default\<close> schema is present and rejects it.
\<close>

theorem default_schema_not_consulted_counterexample:
  "responseValidator default_only_route example_request example_response
     = CallNext example_request
         \<lparr>statusCode = 200, json = JsonOverride default_only_route OriginalJson, wire = []\<rparr>
   \<and> responses default_only_route (Code 200) = None
   \<and> responses default_only_route Default = Some z_never
   \<and> z_never (JStr ''leak'') = Inl (ZodIssues [''Expected never''])
   \<and> res_json wire_json (JStr ''leak'')
         \<lparr>statusCode = 200, json = JsonOverride default_only_route OriginalJson, wire = []\<rparr>
       = (None, \<lparr>statusCode = 200, json = JsonOverride default_only_route OriginalJson,
                  wire = [(200, JStr ''leak'')]\<rparr>)"
  by (simp add: responseValidator_def example_response_def default_only_route_def z_never_def
      res_json_def parsedBody_def wire_json_def)

text \<open>
  C1 (amended). For every wrapped response \<open>r\<close> (its \<^verbatim>\<open>json\<close> is the override over
  the route description \<open>rd\<close> and the saved \<^verbatim>\<open>originalJson\<close>) and every status code
  the handler has set, the body is validated against the response schema of \<open>rd\<close> for that
  exact status code: a rejected body is replaced by the fixed body with status 500, an
  accepted one is handed to \<^verbatim>\<open>originalJson\<close> as parsed (as sent, when the parsed value
  is \<^verbatim>\<open>undefined\<close> or \<^verbatim>\<open>null\<close>). When that status code has no entry in
  \<^verbatim>\<open>responses\<close>, the body is handed to \<^verbatim>\<open>originalJson\<close> unchecked, whether or not
  a \<^verbatim>\<open>default\<close> schema is present: the result of a send does not depend on the
  \<^verbatim>\<open>default\<close> entry at all. (The send is that call of \<^verbatim>\<open>originalJson\<close> as long
  as the call raises nothing; what it raises is caught like a rejected body.)
\<close>

theorem response_schema_is_exact_status_entry:
  assumes "json r = JsonOverride rd orig"
  shows "(responses rd (Code (statusCode r)) = None \<longrightarrow> fst (call_json tr orig b r) = None
            \<longrightarrow> res_json tr b r = call_json tr orig b r)
    \<and> (\<forall>s. responses rd (Code (statusCode r)) = Some s \<longrightarrow>
          (\<forall>e. s b = Inl e \<longrightarrow>
             res_json tr b r = call_json tr orig fallbackBody (r\<lparr>statusCode := 500\<rparr>))
        \<and> (\<forall>v. s b = Inr v \<longrightarrow>
             fst (call_json tr orig (if v = JUndefined \<or> v = JNull then b else v) r) = None \<longrightarrow>
             res_json tr b r = call_json tr orig (if v = JUndefined \<or> v = JNull then b else v) r))
    \<and> (\<forall>d. call_json tr (JsonOverride (rd\<lparr>responses := (responses rd)(Default := d)\<rparr>) orig) b r
            = call_json tr (JsonOverride rd orig) b r)"
proof (intro conjI allI impI)
  show "res_json tr b r = call_json tr orig b r"
    if "responses rd (Code (statusCode r)) = None" "fst (call_json tr orig b r) = None"
    using that by (cases "call_json tr orig b r") (simp add: res_json_override [OF assms] parsedBody_def)
  show "res_json tr b r = call_json tr orig fallbackBody (r\<lparr>statusCode := 500\<rparr>)"
    if "responses rd (Code (statusCode r)) = Some s" "s b = Inl e" for s e
    using that by (simp add: res_json_override [OF assms] parsedBody_def)
  show "res_json tr b r = call_json tr orig (if v = JUndefined \<or> v = JNull then b else v) r"
    if "responses rd (Code (statusCode r)) = Some s" "s b = Inr v"
      "fst (call_json tr orig (if v = JUndefined \<or> v = JNull then b else v) r) = None" for s v
    using that
    by (cases "call_json tr orig (if v = JUndefined \<or> v = JNull then b else v) r")
      (simp add: res_json_override [OF assms] parsedBody_def)
  show "call_json tr (JsonOverride (rd\<lparr>responses := (responses rd)(Default := d)\<rparr>) orig) b r
            = call_json tr (JsonOverride rd orig) b r" for d
    by (simp add: parsedBody_def)
qed

text \<open>
  Instance for C1: on the example route, which documents status 200 with
  \<^verbatim>\<open>z.number()\<close>, the number 1 sent with status 200 passes the schema, and a string
  sent with the undocumented status 404 goes out unchecked.
\<close>

theorem response_schema_is_exact_status_entry_witness:
  "res_json wire_json (JNum 1)
       \<lparr>statusCode = 200, json = JsonOverride example_route OriginalJson, wire = []\<rparr>
     = (None, \<lparr>statusCode = 200, json = JsonOverride example_route OriginalJson,
                wire = [(200, JNum 1)]\<rparr>)
   \<and> res_json wire_json (JStr ''x'')
       \<lparr>statusCode = 404, json = JsonOverride example_route OriginalJson, wire = []\<rparr>
     = (None, \<lparr>statusCode = 404, json = JsonOverride example_route OriginalJson,
                wire = [(404, JStr ''x'')]\<rparr>)"
proof -
  let ?r = "\<lambda>c. \<lparr>statusCode = c, json = JsonOverride example_route OriginalJson, wire = []\<rparr>"
  have j: "json (?r c) = JsonOverride example_route OriginalJson" for c
    by simp
  have s: "responses example_route (Code (statusCode (?r 200))) = Some z_number"
    and n: "responses example_route (Code (statusCode (?r 404))) = None"
    by (simp_all add: example_route_def)
  have p: "z_number (JNum 1) = Inr (JNum 1)"
    by (simp add: z_number_def)
  have "res_json wire_json (JNum 1) (?r 200) = call_json wire_json OriginalJson (JNum 1) (?r 200)"
    using response_schema_is_exact_status_entry [OF j, of 200 wire_json "JNum 1"] s p
    by (simp add: wire_json_def)
  moreover have "res_json wire_json (JStr ''x'') (?r 404)
      = call_json wire_json OriginalJson (JStr ''x'') (?r 404)"
    using response_schema_is_exact_status_entry [OF j, of 404 wire_json "JStr ''x''"] n
    by (simp add: wire_json_def)
  ultimately show ?thesis
    by (simp add: wire_json_def)
qed




text \<open>
  C6, as stated, fails: the override stays in \<^verbatim>\<open>res.json\<close>, so a second send is
  parsed as the first was. On the example route the handler sends the number 1 and then
  a string, both with status 200: the second body is replaced by the fixed body with
  status 500, which only its validation can cause; it does not reach the wire as sent.
\<close>

theorem second_send_validated_counterexample:
  "json (snd (res_json wire_json (JNum 1)
       \<lparr>statusCode = 200, json = JsonOverride example_route OriginalJson, wire = []\<rparr>))
     = JsonOverride example_route OriginalJson
   \<and> wire (snd (res_json wire_json (JStr ''x'')
       (snd (res_json wire_json (JNum 1)
          \<lparr>statusCode = 200, json = JsonOverride example_route OriginalJson, wire = []\<rparr>))))
     = [(200, JNum 1), (500, fallbackBody)]
   \<and> wire (snd (res_json wire_json (JStr ''x'')
       (snd (res_json wire_json (JNum 1)
          \<lparr>statusCode = 200, json = JsonOverride example_route OriginalJson, wire = []\<rparr>))))
     \<noteq> [(200, JNum 1), (200, JStr ''x'')]"
  by (simp add: res_json_def parsedBody_def wire_json_def example_route_def z_number_def)

text \<open>
  C6 (amended). Every send on a wrapped response is intercepted and validated, not only
  the first: with a transport that leaves \<^verbatim>\<open>res.json\<close> alone, after any sequence
  \<open>bs\<close> of sends the override is still the \<^verbatim>\<open>json\<close> of the response, and the next
  body is checked against the response schema for the status code the response has then;
  when that schema rejects it, the send is that of the fixed body with status 500.
\<close>

theorem every_send_is_validated:
  assumes "json r = JsonOverride rd orig" and "\<forall>x y. json (snd (tr x y)) = json y"
  shows "json (fold (\<lambda>b x. snd (res_json tr b x)) bs r) = JsonOverride rd orig
    \<and> (\<forall>s e. responses rd (Code (statusCode (fold (\<lambda>b x. snd (res_json tr b x)) bs r))) = Some s
          \<and> s b = Inl e
        \<longrightarrow> res_json tr b (fold (\<lambda>b x. snd (res_json tr b x)) bs r)
            = call_json tr orig fallbackBody
                ((fold (\<lambda>b x. snd (res_json tr b x)) bs r)\<lparr>statusCode := 500\<rparr>))"
proof -
  let ?r = "fold (\<lambda>b x. snd (res_json tr b x)) bs r"
  have j: "json ?r = JsonOverride rd orig"
    using sends_keep_json [OF assms(2)] assms(1) by simp
  show ?thesis
    using j by (auto simp: res_json_override [OF j] parsedBody_def)
qed

text \<open>
  Instance for C6: after the number 1 has been sent, a string is still checked against
  \<^verbatim>\<open>z.number()\<close> and replaced.
\<close>

theorem every_send_is_validated_witness:
  "json (fold (\<lambda>b x. snd (res_json wire_json b x)) [JNum 1]
       \<lparr>statusCode = 200, json = JsonOverride example_route OriginalJson, wire = []\<rparr>)
     = JsonOverride example_route OriginalJson
   \<and> res_json wire_json (JStr ''x'')
       (fold (\<lambda>b x. snd (res_json wire_json b x)) [JNum 1]
          \<lparr>statusCode = 200, json = JsonOverride example_route OriginalJson, wire = []\<rparr>)
     = (None, \<lparr>statusCode = 500, json = JsonOverride example_route OriginalJson,
                wire = [(200, JNum 1), (500, fallbackBody)]\<rparr>)"
proof -
  let ?r = "\<lparr>statusCode = 200, json = JsonOverride example_route OriginalJson, wire = []\<rparr>"
  let ?r1 = "fold (\<lambda>b x. snd (res_json wire_json b x)) [JNum 1] ?r"
  have j: "json ?r = JsonOverride example_route OriginalJson"
    by simp
  have k: "\<forall>x y. json (snd (wire_json x y)) = json y"
    by (simp add: wire_json_def)
  have r1: "?r1 = \<lparr>statusCode = 200, json = JsonOverride example_route OriginalJson,
                    wire = [(200, JNum 1)]\<rparr>"
    by (simp add: res_json_def parsedBody_def wire_json_def example_route_def z_number_def)
  have s: "responses example_route (Code (statusCode ?r1)) = Some z_number
      \<and> z_number (JStr ''x'') = Inl (ZodIssues [''Expected number''])"
    unfolding r1 by (simp add: example_route_def z_number_def)
  have "json ?r1 = JsonOverride example_route OriginalJson
      \<and> res_json wire_json (JStr ''x'') ?r1
          = call_json wire_json OriginalJson fallbackBody (?r1\<lparr>statusCode := 500\<rparr>)"
    using every_send_is_validated [OF j k, of "[JNum 1]" "JStr ''x''"] s by blast
  then show ?thesis
    unfolding r1 by (simp add: wire_json_def)
qed

subsection \<open>The request validator\<close>

lemma update_as_map:
  "distinct (map fst q) \<Longrightarrow> map_of q key = Some v \<Longrightarrow>
   AList.update key v' q = map (\<lambda>(k, x). (k, if k = key then v' else x)) q"
proof (induction q)
  case Nil
  then show ?case by simp
next
  case (Cons kv q)
  obtain k x where kv: "kv = (k, x)" by (cases kv)
  show ?case
  proof (cases "k = key")
    case True
    with Cons.prems kv have "key \<notin> fst ` set q" by auto
    then have "map (\<lambda>(k, x). (k, if k = key then v' else x)) q = q"
      by (induction q) auto
    with True kv show ?thesis by simp
  next
    case False
    with Cons kv show ?thesis by simp
  qed
qed

lemma coerce_step:
  assumes "distinct (map fst q)"
  shows "(if map_of q key = Some (JStr ''true'') then AList.update key (JBool True) q
          else if map_of q key = Some (JStr ''false'') then AList.update key (JBool False) q
          else q)
         = map (\<lambda>(k, x). (k, if k = key then coerceValue x else x)) q"
proof -
  have v: "\<And>x. (key, x) \<in> set q \<Longrightarrow> map_of q key = Some x"
    using assms by simp
  show ?thesis
  proof (cases "map_of q key = Some (JStr ''true'')")
    case True
    have "\<And>k x. (k, x) \<in> set q \<Longrightarrow>
            (if k = key then JBool True else x) = (if k = key then coerceValue x else x)"
      using v True by (fastforce simp: coerceValue_def)
    then have "map (\<lambda>(k, x). (k, if k = key then JBool True else x)) q
          = map (\<lambda>(k, x). (k, if k = key then coerceValue x else x)) q"
      by (intro map_cong refl) (simp add: case_prod_unfold)
    with True update_as_map [OF assms True] show ?thesis by simp
  next
    case nt: False
    show ?thesis
    proof (cases "map_of q key = Some (JStr ''false'')")
      case True
      have "\<And>k x. (k, x) \<in> set q \<Longrightarrow>
              (if k = key then JBool False else x) = (if k = key then coerceValue x else x)"
        using v True by (fastforce simp: coerceValue_def)
      then have "map (\<lambda>(k, x). (k, if k = key then JBool False else x)) q
            = map (\<lambda>(k, x). (k, if k = key then coerceValue x else x)) q"
        by (intro map_cong refl) (simp add: case_prod_unfold)
      with True nt update_as_map [OF assms True] show ?thesis by simp
    next
      case False
      have "\<And>k x. (k, x) \<in> set q \<Longrightarrow> (if k = key then coerceValue x else x) = x"
        using v nt False by (fastforce simp: coerceValue_def)
      then have "map (\<lambda>(k, x). (k, if k = key then coerceValue x else x)) q = map (\<lambda>kv. kv) q"
        by (intro map_cong refl) (simp add: case_prod_unfold)
      with nt False show ?thesis by simp
    qed
  qed
qed

lemma coerceValue_idem: "coerceValue (coerceValue v) = coerceValue v"
  by (simp add: coerceValue_def)

lemma coerce_keys_as_map:
  "distinct (map fst q) \<Longrightarrow>
   coerce_keys ks q = map (\<lambda>(k, x). (k, if k \<in> set ks then coerceValue x else x)) q"
proof (induction ks arbitrary: q)
  case Nil
  then show ?case by simp
next
  case (Cons key ks)
  let ?q1 = "map (\<lambda>(k, x). (k, if k = key then coerceValue x else x)) q"
  have d: "distinct (map fst ?q1)"
    using Cons.prems by (simp add: comp_def case_prod_unfold)
  have "coerce_keys (key # ks) q = coerce_keys ks ?q1"
    using coerce_step [OF Cons.prems] by simp
  also have "\<dots> = map (\<lambda>(k, x). (k, if k \<in> set ks then coerceValue x else x)) ?q1"
    using Cons.IH [OF d] .
  also have "\<dots> = map (\<lambda>(k, x). (k, if k \<in> set (key # ks) then coerceValue x else x)) q"
    by (auto simp: coerceValue_idem)
  finally show ?case .
qed

lemma coerce_keys_own:
  assumes "distinct (map fst q)"
  shows "coerce_keys (map fst q) q
         = map (\<lambda>(k, v). (k, if v = JStr ''true'' then JBool True
                              else if v = JStr ''false'' then JBool False else v)) q"
proof -
  have "coerce_keys (map fst q) q
        = map (\<lambda>(k, x). (k, if k \<in> set (map fst q) then coerceValue x else x)) q"
    using assms by (rule coerce_keys_as_map)
  also have "\<dots> = map (\<lambda>(k, v). (k, if v = JStr ''true'' then JBool True
                              else if v = JStr ''false'' then JBool False else v)) q"
  proof (intro map_cong refl)
    fix kv assume "kv \<in> set q"
    then have "fst kv \<in> fst ` set q" by (rule imageI)
    then show "(case kv of (k, x) \<Rightarrow> (k, if k \<in> set (map fst q) then coerceValue x else x))
      = (case kv of (k, v) \<Rightarrow> (k, if v = JStr ''true'' then JBool True
                              else if v = JStr ''false'' then JBool False else v))"
      by (cases kv) (simp add: coerceValue_def)
  qed
  finally show ?thesis .
qed

text \<open>
  C3. On a route with a path schema \<open>ps\<close>: when the path parameters, the query and the
  body all pass, the validator calls \<^verbatim>\<open>next()\<close> with \<^verbatim>\<open>req.params\<close> replaced by
  exactly the value \<open>ps\<close> returned (and the query and body by their parsed values). When
  a category fails, in the order path, query, body, the validator makes one call, to
  \<^verbatim>\<open>config.errorHandler\<close>, with the failure of the first failing category, and does
  not call \<^verbatim>\<open>next()\<close>, so no handler after it runs; for a query object that failure
  is the \<^verbatim>\<open>ZodError\<close> of the query schema (of \<^verbatim>\<open>z.object({})\<close> without one).
  The handlers are reached exactly when all three categories pass.
\<close>

theorem requestValidator_path_schema:
  assumes "parameters.path (parameters rd) = Some ps"
  shows
   "(\<forall>p q b. ps (params req) = Inr p \<and> validateQuery zobj rd (query req) = Inr q
         \<and> validateBody rd (request.headers req) (body req) = Inr b
       \<longrightarrow> requestValidator zobj rd req res = CallNext (req\<lparr>params := p, query := q, body := b\<rparr>) res)
    \<and> (\<forall>e. ps (params req) = Inl e
       \<longrightarrow> requestValidator zobj rd req res = CallErrorHandler (ZodError e) req res)
    \<and> (\<forall>p err q. ps (params req) = Inr p \<and> validateQuery zobj rd (query req) = Inl (err, q)
       \<longrightarrow> requestValidator zobj rd req res = CallErrorHandler err (req\<lparr>params := p, query := q\<rparr>) res)
    \<and> (\<forall>p q e. ps (params req) = Inr p \<and> validateQuery zobj rd (query req) = Inr q
         \<and> validateBody rd (request.headers req) (body req) = Inl e
       \<longrightarrow> requestValidator zobj rd req res
           = CallErrorHandler (ZodError e) (req\<lparr>params := p, query := q\<rparr>) res)
    \<and> (\<forall>qo err q. query req = JObj qo \<and> validateQuery zobj rd (query req) = Inl (err, q)
       \<longrightarrow> (\<exists>e. err = ZodError e
             \<and> (case parameters.query (parameters rd) of Some s \<Rightarrow> s q | None \<Rightarrow> zobj q) = Inl e))
    \<and> ((\<exists>req'. requestValidator zobj rd req res = CallNext req' res)
       \<longleftrightarrow> (\<exists>p q b. ps (params req) = Inr p \<and> validateQuery zobj rd (query req) = Inr q
             \<and> validateBody rd (request.headers req) (body req) = Inr b))"
proof (intro conjI allI impI)
  fix qo err q
  assume "query req = JObj qo \<and> validateQuery zobj rd (query req) = Inl (err, q)"
  then show "\<exists>e. err = ZodError e
             \<and> (case parameters.query (parameters rd) of Some s \<Rightarrow> s q | None \<Rightarrow> zobj q) = Inl e"
    by (auto simp: validateQuery_def split: option.splits sum.splits)
next
  show "(\<exists>req'. requestValidator zobj rd req res = CallNext req' res)
       \<longleftrightarrow> (\<exists>p q b. ps (params req) = Inr p \<and> validateQuery zobj rd (query req) = Inr q
             \<and> validateBody rd (request.headers req) (body req) = Inr b)"
    using assms
    by (auto simp: requestValidator_def validatePathParams_def split: sum.splits prod.splits)
qed (use assms in \<open>auto simp: requestValidator_def validatePathParams_def\<close>)

text \<open>
  Instance for C3: the example request passes and reaches the handlers with
  \<^verbatim>\<open>{ id: "7" }\<close> as its parameters; without \<^verbatim>\<open>id\<close> the error handler gets the
  failure of the path schema.
\<close>

theorem requestValidator_path_schema_witness:
  "requestValidator z_object_empty example_route example_request example_response
     = CallNext (example_request\<lparr>params := JObj [(''id'', JStr ''7'')],
                   query := JObj [(''admin'', JBool True)], body := JNum 1\<rparr>) example_response
   \<and> requestValidator z_object_empty example_route (example_request\<lparr>params := JObj []\<rparr>)
         example_response
     = CallErrorHandler (ZodError (ZodIssues [''id: Expected string'']))
         (example_request\<lparr>params := JObj []\<rparr>) example_response"
proof -
  have h: "parameters.path (parameters example_route) = Some z_object_id"
    by (simp add: example_route_def)
  have p: "z_object_id (params example_request) = Inr (JObj [(''id'', JStr ''7'')])"
    by (simp add: example_request_def z_object_id_def)
  have q: "validateQuery z_object_empty example_route (query example_request)
      = Inr (JObj [(''admin'', JBool True)])"
    by (simp add: validateQuery_def example_route_def example_request_def z_object_admin_def)
  have b: "validateBody example_route (request.headers example_request) (body example_request)
      = Inr (JNum 1)"
    by (simp add: validateBody_def example_route_def example_request_def z_number_def)
  have e: "z_object_id (params (example_request\<lparr>params := JObj []\<rparr>))
      = Inl (ZodIssues [''id: Expected string''])"
    by (simp add: z_object_id_def)
  have "requestValidator z_object_empty example_route example_request example_response
     = CallNext (example_request\<lparr>params := JObj [(''id'', JStr ''7'')],
                   query := JObj [(''admin'', JBool True)], body := JNum 1\<rparr>) example_response"
    using requestValidator_path_schema [OF h, of example_request z_object_empty example_response]
      p q b by blast
  moreover have "requestValidator z_object_empty example_route
         (example_request\<lparr>params := JObj []\<rparr>) example_response
     = CallErrorHandler (ZodError (ZodIssues [''id: Expected string'']))
         (example_request\<lparr>params := JObj []\<rparr>) example_response"
    using requestValidator_path_schema
      [OF h, of "example_request\<lparr>params := JObj []\<rparr>" z_object_empty example_response] e
    by blast
  ultimately show ?thesis by simp
qed

text \<open>
  C7. On a route with a query schema \<open>qs\<close>, once the path parameters have passed, the
  schema is applied to the query object in which every value that is exactly the string
  \<^verbatim>\<open>"true"\<close> has become the boolean \<^verbatim>\<open>true\<close>, every value that is exactly
  \<^verbatim>\<open>"false"\<close> the boolean \<^verbatim>\<open>false\<close>, and every other value is as it was, under
  the same keys in the same order. (The keys of an object are distinct.)
\<close>

theorem query_true_false_coerced_before_schema:
  assumes "parameters.query (parameters rd) = Some qs"
    and "query req = JObj qo" and "distinct (map fst qo)"
    and "validatePathParams zobj rd (params req) = Inr p"
    and "qc = JObj (map (\<lambda>(k, v). (k, if v = JStr ''true'' then JBool True
                                       else if v = JStr ''false'' then JBool False else v)) qo)"
  shows "requestValidator zobj rd req res =
      (case qs qc of
         Inl e \<Rightarrow> CallErrorHandler (ZodError e) (req\<lparr>params := p, query := qc\<rparr>) res
       | Inr q' \<Rightarrow>
           (case validateBody rd (request.headers req) (body req) of
              Inl e \<Rightarrow> CallErrorHandler (ZodError e) (req\<lparr>params := p, query := q'\<rparr>) res
            | Inr b \<Rightarrow> CallNext (req\<lparr>params := p, query := q', body := b\<rparr>) res))"
  using assms(1,2,4,5)
  by (simp add: requestValidator_def validateQuery_def coerce_keys_own [OF assms(3)]
      split: sum.splits)

text \<open>
  Instance for C7: \<^verbatim>\<open>?admin=true\<close> passes \<^verbatim>\<open>z.object({ admin: z.boolean() })\<close>,
  which rejects the string.
\<close>

theorem query_true_false_coerced_before_schema_witness:
  "z_object_admin (JObj [(''admin'', JStr ''true'')]) = Inl (ZodIssues [''admin: Expected boolean''])
   \<and> requestValidator z_object_empty example_route example_request example_response
     = CallNext (example_request\<lparr>params := JObj [(''id'', JStr ''7'')],
                   query := JObj [(''admin'', JBool True)], body := JNum 1\<rparr>) example_response"
proof -
  have s: "parameters.query (parameters example_route) = Some z_object_admin"
    by (simp add: example_route_def)
  have o: "query example_request = JObj [(''admin'', JStr ''true'')]"
    by (simp add: example_request_def)
  have d: "distinct (map fst [(''admin'', JStr ''true'')])"
    by simp
  have p: "validatePathParams z_object_empty example_route (params example_request)
      = Inr (JObj [(''id'', JStr ''7'')])"
    by (simp add: validatePathParams_def example_route_def example_request_def z_object_id_def)
  have c: "JObj [(''admin'', JBool True)]
      = JObj (map (\<lambda>(k, v). (k, if v = JStr ''true'' then JBool True
                                  else if v = JStr ''false'' then JBool False else v))
                [(''admin'', JStr ''true'')])"
    by simp
  have b: "validateBody example_route (request.headers example_request) (body example_request)
      = Inr (JNum 1)"
    by (simp add: validateBody_def example_route_def example_request_def z_number_def)
  have a: "z_object_admin (JObj [(''admin'', JBool True)]) = Inr (JObj [(''admin'', JBool True)])"
    and r: "z_object_admin (JObj [(''admin'', JStr ''true'')])
      = Inl (ZodIssues [''admin: Expected boolean''])"
    by (simp_all add: z_object_admin_def)
  show ?thesis
    using query_true_false_coerced_before_schema [OF s o d p c, of example_response] a b r
    by simp
qed

text \<open>
  C8. When the request's content type is exactly \<^verbatim>\<open>application/json\<close> and the route
  declares a body schema, the validator, having passed the path parameters and the query,
  applies that schema to the body: the parsed value replaces \<^verbatim>\<open>req.body\<close>, a failure
  goes to the error handler. In every other case the body of the request that the
  validator hands on is the body it received, and once path and query have passed the
  handlers are reached with it. Whenever the error handler is called, at whatever
  category, the body is the one received.
\<close>

theorem body_validated_iff_json_with_schema:
  "(\<forall>bs p q. request.headers req ''content-type'' = Some ''application/json''
        \<and> request rd = Some bs
        \<and> validatePathParams zobj rd (params req) = Inr p
        \<and> validateQuery zobj rd (query req) = Inr q
      \<longrightarrow> requestValidator zobj rd req res =
            (case bs (body req) of
               Inl e \<Rightarrow> CallErrorHandler (ZodError e) (req\<lparr>params := p, query := q\<rparr>) res
             | Inr b \<Rightarrow> CallNext (req\<lparr>params := p, query := q, body := b\<rparr>) res))
   \<and> (\<not> (request.headers req ''content-type'' = Some ''application/json'' \<and> request rd \<noteq> None)
      \<longrightarrow> body (outcome_request (requestValidator zobj rd req res)) = body req
        \<and> (\<forall>p q. validatePathParams zobj rd (params req) = Inr p
              \<and> validateQuery zobj rd (query req) = Inr q
            \<longrightarrow> requestValidator zobj rd req res = CallNext (req\<lparr>params := p, query := q\<rparr>) res))
   \<and> (\<forall>err r s. requestValidator zobj rd req res = CallErrorHandler err r s \<longrightarrow> body r = body req)"
  by (auto simp: requestValidator_def validateBody_def split: sum.splits option.splits)

text \<open>
  Instance for C8: with content type \<^verbatim>\<open>application/json\<close> a string body fails
  \<^verbatim>\<open>z.number()\<close>; with \<^verbatim>\<open>text/plain\<close> the same body goes through untouched.
\<close>

theorem body_validated_iff_json_with_schema_witness:
  "requestValidator z_object_empty example_route (example_request\<lparr>body := JStr ''x''\<rparr>)
       example_response
     = CallErrorHandler (ZodError (ZodIssues [''Expected number'']))
         (example_request\<lparr>params := JObj [(''id'', JStr ''7'')],
            query := JObj [(''admin'', JBool True)], body := JStr ''x''\<rparr>) example_response
   \<and> requestValidator z_object_empty example_route
       (example_request\<lparr>body := JStr ''x'', headers := [''content-type'' \<mapsto> ''text/plain'']\<rparr>)
       example_response
     = CallNext
         (example_request\<lparr>params := JObj [(''id'', JStr ''7'')],
            query := JObj [(''admin'', JBool True)], body := JStr ''x'',
            headers := [''content-type'' \<mapsto> ''text/plain'']\<rparr>) example_response"
proof -
  let ?j = "example_request\<lparr>body := JStr ''x''\<rparr>"
  let ?t = "example_request\<lparr>body := JStr ''x'', headers := [''content-type'' \<mapsto> ''text/plain'']\<rparr>"
  have hj: "request.headers ?j ''content-type'' = Some ''application/json''"
    and ht: "\<not> (request.headers ?t ''content-type'' = Some ''application/json''
              \<and> request example_route \<noteq> None)"
    by (simp_all add: example_request_def)
  have s: "request example_route = Some z_number"
    by (simp add: example_route_def)
  have p: "validatePathParams z_object_empty example_route (params ?j)
        = Inr (JObj [(''id'', JStr ''7'')])"
      "validatePathParams z_object_empty example_route (params ?t)
        = Inr (JObj [(''id'', JStr ''7'')])"
    by (simp_all add: validatePathParams_def example_route_def example_request_def z_object_id_def)
  have q: "validateQuery z_object_empty example_route (query ?j) = Inr (JObj [(''admin'', JBool True)])"
      "validateQuery z_object_empty example_route (query ?t) = Inr (JObj [(''admin'', JBool True)])"
    by (simp_all add: validateQuery_def example_route_def example_request_def z_object_admin_def)
  have e: "z_number (body ?j) = Inl (ZodIssues [''Expected number''])"
    by (simp add: z_number_def)
  have "requestValidator z_object_empty example_route ?j example_response
      = (case z_number (body ?j) of
           Inl e \<Rightarrow> CallErrorHandler (ZodError e)
             (?j\<lparr>params := JObj [(''id'', JStr ''7'')], query := JObj [(''admin'', JBool True)]\<rparr>)
             example_response
         | Inr b \<Rightarrow> CallNext
             (?j\<lparr>params := JObj [(''id'', JStr ''7'')], query := JObj [(''admin'', JBool True)],
                 body := b\<rparr>) example_response)"
    using body_validated_iff_json_with_schema [of ?j example_route z_object_empty example_response]
      hj s p(1) q(1) by blast
  moreover have "requestValidator z_object_empty example_route ?t example_response
      = CallNext (?t\<lparr>params := JObj [(''id'', JStr ''7'')], query := JObj [(''admin'', JBool True)]\<rparr>)
          example_response"
    using body_validated_iff_json_with_schema [of ?t example_route z_object_empty example_response]
      ht p(2) q(2) by blast
  ultimately show ?thesis
    using e by (simp add: example_request_def)
qed

text \<open>
  C10. The validator undoes nothing. When the query fails after the path parameters have
  passed, the request handed to the error handler has the parsed path parameters in
  \<^verbatim>\<open>req.params\<close>; when the body fails, it has the parsed path parameters and the
  parsed query.
\<close>

theorem no_rollback_on_later_failure:
  "(\<forall>p err q. validatePathParams zobj rd (params req) = Inr p
        \<and> validateQuery zobj rd (query req) = Inl (err, q)
      \<longrightarrow> requestValidator zobj rd req res
            = CallErrorHandler err (outcome_request (requestValidator zobj rd req res)) res
          \<and> params (outcome_request (requestValidator zobj rd req res)) = p)
   \<and> (\<forall>p q e. validatePathParams zobj rd (params req) = Inr p
        \<and> validateQuery zobj rd (query req) = Inr q
        \<and> validateBody rd (request.headers req) (body req) = Inl e
      \<longrightarrow> requestValidator zobj rd req res
            = CallErrorHandler (ZodError e) (outcome_request (requestValidator zobj rd req res)) res
          \<and> params (outcome_request (requestValidator zobj rd req res)) = p
          \<and> query (outcome_request (requestValidator zobj rd req res)) = q)"
  by (auto simp: requestValidator_def)

text \<open>
  Instance for C10: with \<^verbatim>\<open>?admin=yes\<close> the query schema fails and the error handler
  sees the parsed parameters \<^verbatim>\<open>{ id: "7" }\<close>; with a string body the body schema
  fails and it sees the parsed parameters and the parsed query.
\<close>

theorem no_rollback_on_later_failure_witness:
  "requestValidator z_object_empty example_route
       (example_request\<lparr>query := JObj [(''admin'', JStr ''yes'')]\<rparr>) example_response
     = CallErrorHandler (ZodError (ZodIssues [''admin: Expected boolean'']))
         (outcome_request (requestValidator z_object_empty example_route
            (example_request\<lparr>query := JObj [(''admin'', JStr ''yes'')]\<rparr>) example_response))
         example_response
   \<and> params (outcome_request (requestValidator z_object_empty example_route
         (example_request\<lparr>query := JObj [(''admin'', JStr ''yes'')]\<rparr>) example_response))
     = JObj [(''id'', JStr ''7'')]
   \<and> params (outcome_request (requestValidator z_object_empty example_route
         (example_request\<lparr>body := JStr ''x''\<rparr>) example_response))
     = JObj [(''id'', JStr ''7'')]
   \<and> query (outcome_request (requestValidator z_object_empty example_route
         (example_request\<lparr>body := JStr ''x''\<rparr>) example_response))
     = JObj [(''admin'', JBool True)]"
proof -
  let ?a = "example_request\<lparr>query := JObj [(''admin'', JStr ''yes'')]\<rparr>"
  let ?b = "example_request\<lparr>body := JStr ''x''\<rparr>"
  have p: "validatePathParams z_object_empty example_route (params ?a)
        = Inr (JObj [(''id'', JStr ''7'')])"
      "validatePathParams z_object_empty example_route (params ?b)
        = Inr (JObj [(''id'', JStr ''7'')])"
    by (simp_all add: validatePathParams_def example_route_def example_request_def z_object_id_def)
  have qa: "validateQuery z_object_empty example_route (query ?a)
        = Inl (ZodError (ZodIssues [''admin: Expected boolean'']), JObj [(''admin'', JStr ''yes'')])"
    by (simp add: validateQuery_def example_route_def z_object_admin_def)
  have qb: "validateQuery z_object_empty example_route (query ?b) = Inr (JObj [(''admin'', JBool True)])"
    by (simp add: validateQuery_def example_route_def example_request_def z_object_admin_def)
  have bb: "validateBody example_route (request.headers ?b) (body ?b)
        = Inl (ZodIssues [''Expected number''])"
    by (simp add: validateBody_def example_route_def example_request_def z_number_def)
  show ?thesis
    using no_rollback_on_later_failure [of z_object_empty example_route ?a example_response]
      no_rollback_on_later_failure [of z_object_empty example_route ?b example_response]
      p qa qb bb
    by blast
qed

subsection \<open>Registration\<close>

lemma fold_override:
  "distinct ms \<Longrightarrow>
   fold (\<lambda>m r. r(m := f (r m) m)) ms router m' =
     (if m' \<in> set ms then f (router m') m' else router m')"
  by (induction ms arbitrary: router) auto

lemma distinct_METHODS: "distinct METHODS"
  by (simp add: METHODS_def)

lemma ExZodusRouter_new_method:
  "ExZodusRouter_new apiDef cfg router m =
     (if m \<in> set METHODS then router_method apiDef cfg (router m) m else router m)"
  unfolding ExZodusRouter_new_def
  using fold_override [OF distinct_METHODS, of "\<lambda>r m. router_method apiDef cfg r m" router m]
  by simp

lemma flatten_args_Arr: "flatten_args [Arr hs] = flatten_args hs"
  by (simp add: flatten_args_def)

text \<open>
  C9. For a path and method without a descriptor in the contract, the function that
  replaces \<^verbatim>\<open>router[method]\<close> calls the original registrar with the path and the
  caller's handlers, as one array. Read flattened, that argument list is the caller's
  own: it contains no validator, and a registrar that reads its arguments flattened, as
  the framework's does, returns what unmodified registration returns. The same holds
  through \<^verbatim>\<open>ExZodusRouter.new\<close> for each of the supported methods.
\<close>

theorem unmatched_route_registers_unmodified:
assumes "(case apiDef p of None \<Rightarrow> None | Some ms \<Rightarrow> ms m) = None"
  shows "router_method apiDef cfg reg m p handlers = reg p [Arr handlers]
    \<and> flatten_args [Arr handlers] = flatten_args handlers
    \<and> ((\<forall>p a b. flatten_args a = flatten_args b \<longrightarrow> reg p a = reg p b)
         \<longrightarrow> router_method apiDef cfg reg m p handlers = reg p handlers)
    \<and> (m \<in> set METHODS
         \<longrightarrow> ExZodusRouter_new apiDef cfg router m p handlers = router m p [Arr handlers])"
proof (intro conjI impI)
  show 1: "router_method apiDef cfg reg m p handlers = reg p [Arr handlers]"
    using assms by (simp add: router_method_def)
  show 2: "flatten_args [Arr handlers] = flatten_args handlers"
    by (rule flatten_args_Arr)
  show "router_method apiDef cfg reg m p handlers = reg p handlers"
    if "\<forall>p a b. flatten_args a = flatten_args b \<longrightarrow> reg p a = reg p b"
  proof -
    from that 2 have "reg p [Arr handlers] = reg p handlers" by blast
    with 1 show ?thesis by simp
  qed
  show "ExZodusRouter_new apiDef cfg router m p handlers = router m p [Arr handlers]"
    if "m \<in> set METHODS"
    using that assms by (simp add: ExZodusRouter_new_method router_method_def)
qed

text \<open>
  Instance for C9: \<^verbatim>\<open>get /health\<close> is not in the example contract; a registrar that
  stores the flattened handlers stores the caller's two handlers and nothing else.
\<close>

theorem unmatched_route_registers_unmodified_witness:
  "(case example_api ''/health'' of None \<Rightarrow> None | Some ms \<Rightarrow> ms ''get'') = None
   \<and> router_method example_api \<lparr>attachResponseValidator = True\<rparr> (\<lambda>p a. (p, flatten_args a))
       ''get'' ''/health'' [Fn (Handler (1::nat)), Fn (Handler 2)]
     = (''/health'', [Handler 1, Handler 2])"
proof -
  have n: "(case example_api ''/health'' of None \<Rightarrow> None | Some ms \<Rightarrow> ms ''get'') = None"
    by (simp add: example_api_def)
  have f: "\<forall>p a b. flatten_args a = flatten_args b
      \<longrightarrow> (\<lambda>p a. (p, flatten_args a)) p a = (\<lambda>p a. (p, flatten_args a)) p (b :: nat middleware harg list)"
    by simp
  have "router_method example_api \<lparr>attachResponseValidator = True\<rparr> (\<lambda>p a. (p, flatten_args a))
       ''get'' ''/health'' [Fn (Handler (1::nat)), Fn (Handler 2)]
     = (\<lambda>p a. (p, flatten_args a)) ''/health'' [Fn (Handler (1::nat)), Fn (Handler 2)]"
    using unmatched_route_registers_unmodified
      [where apiDef = example_api and p = "''/health''" and m = "''get''"
         and cfg = "\<lparr>attachResponseValidator = True\<rparr>"
         and reg = "\<lambda>p a. (p, flatten_args a)"
         and handlers = "[Fn (Handler (1::nat)), Fn (Handler 2)]", OF n] f
    by blast
  with n show ?thesis
    by (simp add: flatten_args_def)
qed

end
